theory Spec2Isabelle
  imports Complex_Main
begin

section \<open>Data model\<close>

text \<open>
  The agent is written in Python over dictionaries. Dictionaries of a fixed shape are
  records whose fields are options (\<open>None\<close>: the key is absent, so \<open>.get(key, default)\<close>
  gives the default). Python numbers are idealised as reals: rounding of floating point
  is not modelled, and \<open>v ** 0.5\<close> on a non-negative number is \<open>sqrt v\<close>.
\<close>

datatype error = TypeError | KeyError | ZeroDivisionError | RuntimeError string

text \<open>
  A scalar telemetry reading as Python sees it: a number, or a value that is not a
  number (a string, \<open>None\<close>), for which comparing with a number raises TypeError.
\<close>

datatype pyval = Num real | Str string | PyNone

definition dict_get :: "'a option \<Rightarrow> 'a \<Rightarrow> 'a" where
  "dict_get v d = (case v of None \<Rightarrow> d | Some x \<Rightarrow> x)"

fun py_lt :: "pyval \<Rightarrow> real \<Rightarrow> error + bool" where
  "py_lt (Num a) b = Inr (a < b)"
| "py_lt (Str s) b = Inl TypeError"
| "py_lt PyNone b = Inl TypeError"

fun py_gt :: "pyval \<Rightarrow> real \<Rightarrow> error + bool" where
  "py_gt (Num a) b = Inr (a > b)"
| "py_gt (Str s) b = Inl TypeError"
| "py_gt PyNone b = Inl TypeError"

definition py_div :: "real \<Rightarrow> real \<Rightarrow> error + real" where
  "py_div a b = (if b = 0 then Inl ZeroDivisionError else Inr (a / b))"

text \<open>A dictionary with the optional numeric keys "x", "y", "z".\<close>

record point =
  x :: "real option"
  y :: "real option"
  z :: "real option"

text \<open>A waypoint adds the optional key "speed", an obstacle the optional key "distance".\<close>

record waypoint = point +
  speed :: "real option"

record obstacle = point +
  distance :: "real option"

record vec3 =
  vx :: real
  vy :: real
  vz :: real

record telemetry =
  battery :: "pyval option"
  signal_strength :: "pyval option"
  wind_speed :: "pyval option"
  obstacle_distance :: "pyval option"
  temperature :: "pyval option"
  position :: "point option"

definition empty_telemetry :: telemetry where
  "empty_telemetry = \<lparr>battery = None, signal_strength = None, wind_speed = None,
     obstacle_distance = None, temperature = None, position = None\<rparr>"

record perception =
  p_telemetry :: "telemetry option"
  p_obstacles :: "obstacle list option"

text \<open>
  The dictionary the safety tool returns for an emergency: "type", "severity", "action"
  and "params" (the formatted "message" text is left out).
\<close>

record emergency =
  e_type :: string
  severity :: string
  e_action :: string
  e_params :: "(string \<times> real) list"

text \<open>
  The value under "params" of a decision (\<open>NoParams\<close>: the key is absent), and the
  message under "reason", one constructor per message of the source (the texts are
  Russian; the numbers and values formatted into them are kept).
\<close>

datatype params =
    NoParams
  | AvoidParams vec3 real
  | GotoParams real real real real
  | WaypointParams waypoint

datatype reason =
    LowBattery | CriticalBattery | SignalLost | HighWind | ObstacleDetected
  | UnknownEmergency
  | CriticalObstacleAt real | ObstacleAt real
  | NoWaypoints | MissionComplete | ReachedWaypoint waypoint | MovingToWaypoint real
  | WaitingForCommands | FreeFlight | FallbackMode | MissionError
  | SlomEmergency emergency | SubAgentRecommendation | SubAgentReason string

record decision =
  command :: string
  params :: params
  reason :: reason
  priority :: string

section \<open>DecisionMaker (agent/decision\_maker.py)\<close>

text \<open>
  A safety rule: its "condition" is an arbitrary callable on the telemetry, which may
  raise; "action" is the decision returned when it holds.
\<close>

record rule =
  rule_name :: string
  condition :: "telemetry \<Rightarrow> error + bool"
  action :: decision
  rule_priority :: int

definition init_safety_rules :: "rule list" where
  "init_safety_rules =
    [ \<lparr>rule_name = ''low_battery'',
       condition = (\<lambda>t. py_lt (dict_get (battery t) (Num 100)) 20),
       action = \<lparr>command = ''RTL'', params = NoParams, reason = LowBattery, priority = ''critical''\<rparr>,
       rule_priority = 100\<rparr>,
      \<lparr>rule_name = ''critical_battery'',
       condition = (\<lambda>t. py_lt (dict_get (battery t) (Num 100)) 10),
       action = \<lparr>command = ''LAND'', params = NoParams, reason = CriticalBattery, priority = ''critical''\<rparr>,
       rule_priority = 200\<rparr>,
      \<lparr>rule_name = ''signal_lost'',
       condition = (\<lambda>t. py_lt (dict_get (signal_strength t) (Num 100)) 20),
       action = \<lparr>command = ''RTL'', params = NoParams, reason = SignalLost, priority = ''high''\<rparr>,
       rule_priority = 90\<rparr>,
      \<lparr>rule_name = ''high_wind'',
       condition = (\<lambda>t. py_gt (dict_get (wind_speed t) (Num 0)) 15),
       action = \<lparr>command = ''LAND'', params = NoParams, reason = HighWind, priority = ''high''\<rparr>,
       rule_priority = 80\<rparr>,
      \<lparr>rule_name = ''obstacle_detected'',
       condition = (\<lambda>t. py_lt (dict_get (obstacle_distance t) (Num 100)) 5),
       action = \<lparr>command = ''HOVER'', params = NoParams, reason = ObstacleDetected, priority = ''high''\<rparr>,
       rule_priority = 85\<rparr> ]"

text \<open>
  \<open>sorted(rules, key=priority, reverse=True)\<close> is a stable sort by descending priority:
  rules of equal priority keep their order. The loop returns the action of the first
  rule whose condition holds; a condition that raises is logged and skipped.
\<close>

definition sorted_rules :: "rule list \<Rightarrow> rule list" where
  "sorted_rules rules = sort_key (\<lambda>r. - rule_priority r) rules"

fun first_matching_rule :: "rule list \<Rightarrow> telemetry \<Rightarrow> decision option" where
  "first_matching_rule [] t = None"
| "first_matching_rule (r # rs) t =
     (case condition r t of
        Inr True \<Rightarrow> Some (action r)
      | Inr False \<Rightarrow> first_matching_rule rs t
      | Inl e \<Rightarrow> first_matching_rule rs t)"

definition check_safety_rules :: "rule list \<Rightarrow> telemetry \<Rightarrow> decision option" where
  "check_safety_rules rules t = first_matching_rule (sorted_rules rules) t"

text \<open>
  Obstacle handling. \<open>float('inf')\<close>, the key of an obstacle without "distance", is
  the value \<open>Infinity\<close>; \<open>min(obstacles, key=...)\<close> walks the list and replaces its
  candidate only by a strictly smaller key, so among equal keys the first one wins.
\<close>

datatype pyfloat = Finite real | Infinity

fun float_lt :: "pyfloat \<Rightarrow> pyfloat \<Rightarrow> bool" where
  "float_lt (Finite a) (Finite b) = (a < b)"
| "float_lt (Finite a) Infinity = True"
| "float_lt Infinity b = False"

fun py_min_loop :: "('a \<Rightarrow> pyfloat) \<Rightarrow> 'a \<Rightarrow> 'a list \<Rightarrow> 'a" where
  "py_min_loop key best [] = best"
| "py_min_loop key best (c # cs) =
     py_min_loop key (if float_lt (key c) (key best) then c else best) cs"

definition distance_key :: "obstacle \<Rightarrow> pyfloat" where
  "distance_key ob = (case distance ob of None \<Rightarrow> Infinity | Some d \<Rightarrow> Finite d)"

definition closest_obstacle :: "obstacle \<Rightarrow> obstacle list \<Rightarrow> obstacle" where
  "closest_obstacle ob obs = py_min_loop distance_key ob obs"

definition calculate_avoidance_direction :: "obstacle \<Rightarrow> error + vec3" where
  "calculate_avoidance_direction ob =
     (let obs_x = dict_get (x ob) 0;
          obs_y = dict_get (y ob) 0;
          obs_z = dict_get (z ob) 0;
          dist = sqrt (obs_x\<^sup>2 + obs_y\<^sup>2 + obs_z\<^sup>2)
      in if dist > 0 then
           (case py_div (- obs_x) dist of
              Inl e \<Rightarrow> Inl e
            | Inr dx \<Rightarrow>
                (case py_div (- obs_y) dist of
                   Inl e \<Rightarrow> Inl e
                 | Inr dy \<Rightarrow> Inr \<lparr>vx = dx, vy = dy, vz = 0\<rparr>))
         else Inr \<lparr>vx = 1, vy = 0, vz = 0\<rparr>)"

fun handle_obstacles :: "obstacle list \<Rightarrow> error + decision option" where
  "handle_obstacles [] = Inr None"
| "handle_obstacles (ob # obs) =
     (let closest = closest_obstacle ob obs;
          dist = dict_get (distance closest) 100
      in if dist < 3 then
           Inr (Some \<lparr>command = ''LAND'', params = NoParams,
                      reason = CriticalObstacleAt dist, priority = ''critical''\<rparr>)
         else if dist < 10 then
           (case calculate_avoidance_direction closest of
              Inl e \<Rightarrow> Inl e
            | Inr direction \<Rightarrow>
                Inr (Some \<lparr>command = ''AVOID'', params = AvoidParams direction 15,
                           reason = ObstacleAt dist, priority = ''high''\<rparr>))
         else Inr None)"

text \<open>Mission navigation.\<close>

record mission_params =
  mission_name :: string
  mission_id :: string
  waypoints :: "waypoint list"
  data_collection :: bool
  learning_enabled :: bool

definition calculate_distance :: "'a point_scheme \<Rightarrow> 'b point_scheme \<Rightarrow> real" where
  "calculate_distance pos1 pos2 =
     (let dx = dict_get (x pos1) 0 - dict_get (x pos2) 0;
          dy = dict_get (y pos1) 0 - dict_get (y pos2) 0;
          dz = dict_get (z pos1) 0 - dict_get (z pos2) 0
      in sqrt (dx\<^sup>2 + dy\<^sup>2 + dz\<^sup>2))"

fun find_next_waypoint :: "point \<Rightarrow> waypoint list \<Rightarrow> waypoint option" where
  "find_next_waypoint current_pos [] = None"
| "find_next_waypoint current_pos (wp # wps) =
     (if calculate_distance current_pos wp > 2 then Some wp
      else find_next_waypoint current_pos wps)"

definition origin :: point where
  "origin = \<lparr>x = Some 0, y = Some 0, z = Some 0\<rparr>"

definition navigate_mission :: "perception \<Rightarrow> mission_params \<Rightarrow> decision" where
  "navigate_mission p mission =
     (let t = dict_get (p_telemetry p) empty_telemetry;
          current_pos = dict_get (position t) origin
      in if waypoints mission = [] then
           \<lparr>command = ''HOVER'', params = NoParams, reason = NoWaypoints, priority = ''low''\<rparr>
         else
           (case find_next_waypoint current_pos (waypoints mission) of
              None \<Rightarrow>
                \<lparr>command = ''RTL'', params = NoParams, reason = MissionComplete,
                 priority = ''medium''\<rparr>
            | Some target \<Rightarrow>
                (let dist = calculate_distance current_pos target
                 in if dist < 2 then
                      \<lparr>command = ''WAYPOINT_REACHED'', params = WaypointParams target,
                       reason = ReachedWaypoint target, priority = ''medium''\<rparr>
                    else
                      \<lparr>command = ''GOTO'',
                       params = GotoParams (dict_get (x target) 0) (dict_get (y target) 0)
                                  (dict_get (z target) 10) (dict_get (speed target) 5),
                       reason = MovingToWaypoint dist, priority = ''medium''\<rparr>)))"

text \<open>
  The two entry points. Every decision of this model is a non-empty dictionary, hence
  true in a Python condition: the final "waiting for commands" HOVER of
  \<open>decide_mission\<close> is behind \<open>if navigation_decision\<close> and is never reached.
\<close>

definition decide_mission :: "rule list \<Rightarrow> perception \<Rightarrow> mission_params \<Rightarrow> error + decision" where
  "decide_mission rules p mission =
     (let t = dict_get (p_telemetry p) empty_telemetry
      in case check_safety_rules rules t of
           Some safety_decision \<Rightarrow> Inr safety_decision
         | None \<Rightarrow>
             (case (case p_obstacles p of
                      None \<Rightarrow> Inr None
                    | Some obs \<Rightarrow> handle_obstacles obs) of
                Inl e \<Rightarrow> Inl e
              | Inr (Some obstacle_decision) \<Rightarrow> Inr obstacle_decision
              | Inr None \<Rightarrow> Inr (navigate_mission p mission)))"

definition decide_free :: "rule list \<Rightarrow> perception \<Rightarrow> error + decision" where
  "decide_free rules p =
     (let t = dict_get (p_telemetry p) empty_telemetry
      in case check_safety_rules rules t of
           Some safety_decision \<Rightarrow> Inr safety_decision
         | None \<Rightarrow>
             Inr \<lparr>command = ''HOVER'', params = NoParams, reason = FreeFlight,
                  priority = ''low''\<rparr>)"

section \<open>SlomTool (tools/slom.py)\<close>

text \<open>
  The thresholds and the geofence come from the configuration. The centre of the
  geofence is indexed with \<open>center["x"]\<close> and \<open>center["y"]\<close>, which raises KeyError
  on a centre without the key. The tool also records a safety level in an attribute
  that none of the functions below reads; that write is not modelled.
\<close>

record thresholds =
  th_battery_critical :: real
  th_battery_low :: real
  th_signal_critical :: real
  th_signal_low :: real
  th_wind_max :: real
  th_temperature_max :: real
  th_temperature_min :: real
  th_obstacle_distance :: real
  th_max_altitude :: real
  th_max_distance :: real

record geofence =
  enabled :: bool
  center :: point
  radius :: real
  max_altitude :: real

record slom_tool =
  slom_thresholds :: thresholds
  slom_geofence :: geofence

definition default_thresholds :: thresholds where
  "default_thresholds =
     \<lparr>th_battery_critical = 15, th_battery_low = 25, th_signal_critical = 20,
      th_signal_low = 40, th_wind_max = 15, th_temperature_max = 60,
      th_temperature_min = - 10, th_obstacle_distance = 5, th_max_altitude = 120,
      th_max_distance = 1000\<rparr>"

definition default_geofence :: geofence where
  "default_geofence =
     \<lparr>enabled = True, center = \<lparr>x = Some 0, y = Some 0, z = Some 0\<rparr>, radius = 500,
      max_altitude = 120\<rparr>"

definition py_index :: "'a option \<Rightarrow> error + 'a" where
  "py_index v = (case v of None \<Rightarrow> Inl KeyError | Some a \<Rightarrow> Inr a)"

definition check_geofence :: "geofence \<Rightarrow> point \<Rightarrow> error + emergency option" where
  "check_geofence g pos =
     (case py_index (x (center g)) of
        Inl e \<Rightarrow> Inl e
      | Inr cx \<Rightarrow>
     (case py_index (y (center g)) of
        Inl e \<Rightarrow> Inl e
      | Inr cy \<Rightarrow>
          (let dx = dict_get (x pos) 0 - cx;
               dy = dict_get (y pos) 0 - cy;
               dist = sqrt (dx\<^sup>2 + dy\<^sup>2)
           in if dist > radius g then
                Inr (Some \<lparr>e_type = ''geofence_breach'', severity = ''warning'',
                           e_action = ''RTL'', e_params = []\<rparr>)
              else
                (let altitude = dict_get (z pos) 0
                 in if altitude > max_altitude g then
                      Inr (Some \<lparr>e_type = ''geofence_breach'', severity = ''warning'',
                                 e_action = ''DESCEND'',
                                 e_params = [(''altitude'', max_altitude g - 10)]\<rparr>)
                    else Inr None))))"

text \<open>
  \<open>check_emergency\<close> reads the dictionary under "telemetry" (a perception without
  that key has none of the keys read here). The checks run in the order battery,
  signal, obstacle, geofence, temperature; the first that fires returns. The method is
  written here as one definition per check, each being the rest of the method from
  that check on.
\<close>

definition temperature_check :: "thresholds \<Rightarrow> telemetry \<Rightarrow> error + emergency option" where
  "temperature_check th t =
     (let temp = dict_get (temperature t) (Num 25)
      in case py_gt temp (th_temperature_max th) of
           Inl e \<Rightarrow> Inl e
         | Inr True \<Rightarrow>
             Inr (Some \<lparr>e_type = ''extreme_temperature'', severity = ''warning'',
                        e_action = ''LAND'', e_params = []\<rparr>)
         | Inr False \<Rightarrow>
             (case py_lt temp (th_temperature_min th) of
                Inl e \<Rightarrow> Inl e
              | Inr True \<Rightarrow>
                  Inr (Some \<lparr>e_type = ''extreme_temperature'', severity = ''warning'',
                             e_action = ''LAND'', e_params = []\<rparr>)
              | Inr False \<Rightarrow> Inr None))"

definition geofence_check :: "geofence \<Rightarrow> thresholds \<Rightarrow> telemetry \<Rightarrow> error + emergency option" where
  "geofence_check g th t =
     (if enabled g then
        (case check_geofence g (dict_get (position t) origin) of
           Inl e \<Rightarrow> Inl e
         | Inr (Some geofence_result) \<Rightarrow> Inr (Some geofence_result)
         | Inr None \<Rightarrow> temperature_check th t)
      else temperature_check th t)"

definition obstacle_check :: "geofence \<Rightarrow> thresholds \<Rightarrow> telemetry \<Rightarrow> error + emergency option" where
  "obstacle_check g th t =
     (case py_lt (dict_get (obstacle_distance t) (Num 100)) (th_obstacle_distance th) of
        Inl e \<Rightarrow> Inl e
      | Inr True \<Rightarrow>
          Inr (Some \<lparr>e_type = ''obstacle_detected'', severity = ''warning'',
                     e_action = ''HOVER'', e_params = []\<rparr>)
      | Inr False \<Rightarrow> geofence_check g th t)"

definition signal_check :: "geofence \<Rightarrow> thresholds \<Rightarrow> telemetry \<Rightarrow> error + emergency option" where
  "signal_check g th t =
     (let signal = dict_get (signal_strength t) (Num 100)
      in case py_lt signal (th_signal_critical th) of
           Inl e \<Rightarrow> Inl e
         | Inr True \<Rightarrow>
             Inr (Some \<lparr>e_type = ''signal_lost'', severity = ''critical'',
                        e_action = ''RTL'', e_params = []\<rparr>)
         | Inr False \<Rightarrow>
             (case py_lt signal (th_signal_low th) of
                Inl e \<Rightarrow> Inl e
              | Inr caution \<Rightarrow> obstacle_check g th t))"

definition check_emergency :: "slom_tool \<Rightarrow> perception \<Rightarrow> error + emergency option" where
  "check_emergency tool data =
     (let t = dict_get (p_telemetry data) empty_telemetry;
          th = slom_thresholds tool;
          bat = dict_get (battery t) (Num 100)
      in case py_lt bat (th_battery_critical th) of
           Inl e \<Rightarrow> Inl e
         | Inr True \<Rightarrow>
             Inr (Some \<lparr>e_type = ''low_battery'', severity = ''critical'',
                        e_action = ''LAND'', e_params = []\<rparr>)
         | Inr False \<Rightarrow>
             (case py_lt bat (th_battery_low th) of
                Inl e \<Rightarrow> Inl e
              | Inr True \<Rightarrow>
                  Inr (Some \<lparr>e_type = ''low_battery'', severity = ''warning'',
                             e_action = ''RTL'', e_params = []\<rparr>)
              | Inr False \<Rightarrow> signal_check (slom_geofence tool) th t))"

section \<open>DroneIntelligentAgent (agent/core.py)\<close>

datatype agent_state =
  INITIALIZING | READY | FLYING | LANDING | EMERGENCY | LEARNING | UPDATING | SHUTDOWN

text \<open>
  The result dictionary of a command: "success", and under "error" why it failed.
\<close>

datatype fault = NoConnection | Raised error | Reported string

record cmd_result =
  success :: bool
  fault_of :: "fault option"

text \<open>A mission report, and the events of a mission.\<close>

datatype event = WaypointReached waypoint

record report =
  r_mission_id :: string
  r_mission_name :: string
  status :: string
  waypoints_completed :: nat
  total_waypoints :: nat
  events :: "event list"
  data_collected :: "waypoint list"

text \<open>
  The fields of the agent the modelled methods read or write. \<open>connected\<close> says that a
  simulator or vehicle client is set; \<open>sent\<close> is the client's side of the link: the
  commands handed to its \<open>send_command\<close>, oldest first. \<open>slom\<close> is the entry "slom"
  of the tool registry, \<open>safety_rules\<close> the rule list of the decision maker,
  \<open>sub_agent_enabled\<close> the configuration flag of the advisory hook.
\<close>

record agent =
  state :: agent_state
  connected :: bool
  sent :: "(string \<times> params) list"
  slom :: "slom_tool option"
  safety_rules :: "rule list"
  sub_agent_enabled :: bool
  current_mission :: "mission_params option"
  mission_history :: "report list"

subsection \<open>act\<close>

text \<open>
  What the collaborators of one \<open>act\<close> call do: the client's \<open>send_command\<close> returns
  a result or raises, the sub-agent's \<open>notify_action\<close> may raise. The state update sits
  between the two calls, inside the \<open>try\<close>: it is skipped when the dispatch raises and
  kept when the notification raises.
\<close>

record act_env =
  send_command :: "error + cmd_result"
  notify_action :: "error option"

definition update_state :: "string \<Rightarrow> agent \<Rightarrow> agent" where
  "update_state cmd a =
     (if cmd \<in> set [''TAKEOFF'', ''GOTO'', ''FOLLOW_PATH''] then a\<lparr>state := FLYING\<rparr>
      else if cmd \<in> set [''LAND'', ''RTL''] then a\<lparr>state := LANDING\<rparr>
      else a)"

definition act :: "act_env \<Rightarrow> agent \<Rightarrow> decision \<Rightarrow> cmd_result \<times> agent" where
  "act env a d =
     (let a1 = (if connected a then a\<lparr>sent := sent a @ [(command d, params d)]\<rparr> else a);
          sent_result = (if connected a then send_command env
                         else Inr \<lparr>success = False, fault_of = Some NoConnection\<rparr>)
      in case sent_result of
           Inl e \<Rightarrow> (\<lparr>success = False, fault_of = Some (Raised e)\<rparr>, a1)
         | Inr result \<Rightarrow>
             (let a2 = update_state (command d) a1
              in case notify_action env of
                   Some e \<Rightarrow> (\<lparr>success = False, fault_of = Some (Raised e)\<rparr>, a2)
                 | None \<Rightarrow> (result, a2)))"

subsection \<open>decide\<close>

text \<open>
  The emergency check of the agent itself reads "battery" and "signal\_strength" under
  "telemetry"; its result carries the type of the emergency.
\<close>

record core_emergency =
  ce_type :: string
  ce_severity :: string
  ce_data :: pyval

definition core_check_emergency :: "perception \<Rightarrow> error + core_emergency option" where
  "core_check_emergency p =
     (let t = dict_get (p_telemetry p) empty_telemetry;
          bat = dict_get (battery t) (Num 100)
      in case py_lt bat 20 of
           Inl e \<Rightarrow> Inl e
         | Inr True \<Rightarrow>
             Inr (Some \<lparr>ce_type = ''low_battery'', ce_severity = ''high'', ce_data = bat\<rparr>)
         | Inr False \<Rightarrow>
             (let signal = dict_get (signal_strength t) (Num 100)
              in case py_lt signal 30 of
                   Inl e \<Rightarrow> Inl e
                 | Inr True \<Rightarrow>
                     Inr (Some \<lparr>ce_type = ''signal_lost'', ce_severity = ''high'',
                                ce_data = signal\<rparr>)
                 | Inr False \<Rightarrow> Inr None))"

definition handle_emergency :: "core_emergency \<Rightarrow> decision" where
  "handle_emergency em =
     (if ce_type em = ''low_battery'' then
        \<lparr>command = ''RTL'', params = NoParams, reason = LowBattery, priority = ''high''\<rparr>
      else if ce_type em = ''signal_lost'' then
        \<lparr>command = ''RTL'', params = NoParams, reason = SignalLost, priority = ''high''\<rparr>
      else
        \<lparr>command = ''LAND'', params = NoParams, reason = UnknownEmergency, priority = ''high''\<rparr>)"

definition fallback_decision :: decision where
  "fallback_decision =
     \<lparr>command = ''HOVER'', params = NoParams, reason = FallbackMode, priority = ''medium''\<rparr>"

text \<open>
  The answer of the advisory sub-agent: "suggest\_change", and optionally
  "suggested\_command" and "reason". An empty suggested command is false in Python.
\<close>

record advice =
  suggest_change :: bool
  suggested_command :: "string option"
  advice_reason :: "string option"

definition merge_decisions :: "decision \<Rightarrow> advice \<Rightarrow> decision" where
  "merge_decisions d adv =
     (case suggested_command adv of
        None \<Rightarrow> d
      | Some c \<Rightarrow>
          (if c = [] then d
           else d\<lparr>command := c,
                  reason := (case advice_reason adv of
                               None \<Rightarrow> SubAgentRecommendation
                             | Some r \<Rightarrow> SubAgentReason r)\<rparr>))"

text \<open>
  \<open>decide_body\<close> is the body of the \<open>try\<close> block of \<open>decide\<close>, \<open>decide\<close> the method
  with its \<open>except Exception\<close> handler. The first statement of the body refreshes the
  agent's cached telemetry, which cannot raise and which the rest of the body does not
  read; it is not modelled. \<open>review\<close> is what the sub-agent's \<open>review_decision\<close>
  does when it is called: it returns an advice or raises.
\<close>

definition consult_sub_agent :: "error + advice \<Rightarrow> agent \<Rightarrow> decision \<Rightarrow> error + decision" where
  "consult_sub_agent review a d =
     (if sub_agent_enabled a then
        (case review of
           Inl e \<Rightarrow> Inl e
         | Inr adv \<Rightarrow> Inr (if suggest_change adv then merge_decisions d adv else d))
      else Inr d)"

definition decide_after_slom :: "error + advice \<Rightarrow> agent \<Rightarrow> perception \<Rightarrow> error + decision" where
  "decide_after_slom review a p =
     (case core_check_emergency p of
        Inl e \<Rightarrow> Inl e
      | Inr (Some em) \<Rightarrow> Inr (handle_emergency em)
      | Inr None \<Rightarrow>
          (case (case current_mission a of
                   Some mission \<Rightarrow> decide_mission (safety_rules a) p mission
                 | None \<Rightarrow> decide_free (safety_rules a) p) of
             Inl e \<Rightarrow> Inl e
           | Inr d \<Rightarrow> consult_sub_agent review a d))"

definition decide_body :: "error + advice \<Rightarrow> agent \<Rightarrow> perception \<Rightarrow> error + decision" where
  "decide_body review a p =
     (case slom a of
        None \<Rightarrow> decide_after_slom review a p
      | Some tool \<Rightarrow>
          (case check_emergency tool p of
             Inl e \<Rightarrow> Inl e
           | Inr (Some em) \<Rightarrow>
               Inr \<lparr>command = ''RTL'', params = NoParams, reason = SlomEmergency em,
                    priority = ''high''\<rparr>
           | Inr None \<Rightarrow> decide_after_slom review a p))"

definition decide :: "error + advice \<Rightarrow> agent \<Rightarrow> perception \<Rightarrow> decision" where
  "decide review a p =
     (case decide_body review a p of
        Inl e \<Rightarrow> fallback_decision
      | Inr d \<Rightarrow> d)"

subsection \<open>run\_mission\<close>

text \<open>
  What the collaborators of one \<open>run_mission\<close> call do. \<open>notify_mission_start\<close> is
  awaited before the \<open>try\<close> block. \<open>goto_result i\<close> is what the client's
  \<open>send_command\<close> does for waypoint number \<open>i\<close>. While the loop is suspended in
  iteration \<open>i\<close> another task may write the agent state (\<open>emergency_stop\<close> does):
  \<open>concurrent_state i\<close> is that write, if any. \<open>complete_fault\<close> is an exception
  raised while the report file is written or the sub-agent is told of the completion,
  both before the agent is reset. \<open>failure_act\<close> describes the collaborators during
  the \<open>act\<close> call of the failure handler. Collecting data at a waypoint goes through
  \<open>perceive\<close>, which absorbs its own exceptions; the telemetry and time stamps stored
  with each item are left out. So is the call of \<open>learn\<close> at the end of a mission with
  learning enabled: it absorbs its own exceptions and writes none of the fields of
  the agent modelled here.
\<close>

record mission_data =
  md_waypoints_completed :: "waypoint list"
  md_events :: "event list"
  md_data_collected :: "waypoint list"

record mission_env =
  notify_mission_start :: "error option"
  goto_result :: "nat \<Rightarrow> error + cmd_result"
  concurrent_state :: "nat \<Rightarrow> agent_state option"
  complete_fault :: "error option"
  failure_act :: act_env

definition goto_waypoint ::
  "(error + cmd_result) \<Rightarrow> agent \<Rightarrow> waypoint \<Rightarrow> (error + cmd_result) \<times> agent" where
  "goto_waypoint outcome a wp =
     (let ps = GotoParams (dict_get (x wp) 0) (dict_get (y wp) 0) (dict_get (z wp) 10)
                 (dict_get (speed wp) 5)
      in if connected a then (outcome, a\<lparr>sent := sent a @ [(''GOTO'', ps)]\<rparr>)
         else (Inr \<lparr>success = False, fault_of = Some NoConnection\<rparr>, a))"

definition record_waypoint :: "mission_params \<Rightarrow> waypoint \<Rightarrow> mission_data \<Rightarrow> mission_data" where
  "record_waypoint m wp md =
     (let md1 = md\<lparr>md_waypoints_completed := md_waypoints_completed md @ [wp],
                    md_events := md_events md @ [WaypointReached wp]\<rparr>
      in if data_collection m
         then md1\<lparr>md_data_collected := md_data_collected md1 @ [wp]\<rparr>
         else md1)"

fun mission_loop ::
  "mission_env \<Rightarrow> mission_params \<Rightarrow> nat \<Rightarrow> waypoint list \<Rightarrow> agent \<Rightarrow> mission_data
     \<Rightarrow> (error + mission_data) \<times> agent" where
  "mission_loop env m i [] a md = (Inr md, a)"
| "mission_loop env m i (wp # wps) a md =
     (if state a = EMERGENCY then (Inr md, a)
      else
        (case goto_waypoint (goto_result env i) a wp of
           (Inl e, a1) \<Rightarrow> (Inl e, a1)
         | (Inr result, a1) \<Rightarrow>
             mission_loop env m (Suc i) wps
               (case concurrent_state env i of
                  None \<Rightarrow> a1
                | Some s \<Rightarrow> a1\<lparr>state := s\<rparr>)
               (if success result then record_waypoint m wp md else md)))"

definition complete_mission ::
  "mission_env \<Rightarrow> agent \<Rightarrow> mission_params \<Rightarrow> mission_data \<Rightarrow> (error + report) \<times> agent" where
  "complete_mission env a m md =
     (let rep = \<lparr>r_mission_id = mission_id m, r_mission_name = mission_name m,
                 status = ''completed'',
                 waypoints_completed = length (md_waypoints_completed md),
                 total_waypoints = length (waypoints m),
                 events = md_events md, data_collected = md_data_collected md\<rparr>
      in case complete_fault env of
           Some e \<Rightarrow> (Inl e, a)
         | None \<Rightarrow>
             (Inr rep,
              a\<lparr>current_mission := None, state := READY,
                mission_history := mission_history a @ [rep]\<rparr>))"

definition handle_mission_failure :: "act_env \<Rightarrow> agent \<Rightarrow> error \<Rightarrow> agent" where
  "handle_mission_failure env a e =
     (let a1 = snd (act env a \<lparr>command = ''LAND'', params = NoParams, reason = MissionError,
                              priority = ''high''\<rparr>)
      in a1\<lparr>current_mission := None, state := READY\<rparr>)"

text \<open>
  \<open>run_mission\<close> returns nothing in Python. The model returns the exception that
  leaves the method, if any, and the agent afterwards.
\<close>

definition empty_mission_data :: mission_data where
  "empty_mission_data =
     \<lparr>md_waypoints_completed = [], md_events = [], md_data_collected = []\<rparr>"

definition run_mission :: "mission_env \<Rightarrow> agent \<Rightarrow> mission_params \<Rightarrow> error option \<times> agent" where
  "run_mission env a m =
     (let a1 = a\<lparr>current_mission := Some m, state := FLYING\<rparr>
      in case notify_mission_start env of
           Some e \<Rightarrow> (Some e, a1)
         | None \<Rightarrow>
             (case mission_loop env m 0 (waypoints m) a1 empty_mission_data of
                (Inl e, a2) \<Rightarrow> (None, handle_mission_failure (failure_act env) a2 e)
              | (Inr md, a2) \<Rightarrow>
                  (case complete_mission env a2 m md of
                     (Inl e, a3) \<Rightarrow> (None, handle_mission_failure (failure_act env) a3 e)
                   | (Inr rep, a3) \<Rightarrow> (None, a3))))"

section \<open>Concrete inputs\<close>

definition agent0 :: agent where
  "agent0 = \<lparr>state = READY, connected = True, sent = [], slom = None,
     safety_rules = init_safety_rules, sub_agent_enabled = False,
     current_mission = None, mission_history = []\<rparr>"

definition default_slom :: slom_tool where
  "default_slom = \<lparr>slom_thresholds = default_thresholds, slom_geofence = default_geofence\<rparr>"

definition mission3 :: mission_params where
  "mission3 = \<lparr>mission_name = ''survey'', mission_id = ''m1'',
     waypoints = [\<lparr>x = Some 10, y = Some 0, z = Some 10, speed = None\<rparr>,
                  \<lparr>x = Some 20, y = Some 0, z = Some 10, speed = None\<rparr>,
                  \<lparr>x = Some 30, y = Some 0, z = Some 10, speed = None\<rparr>],
     data_collection = True, learning_enabled = False\<rparr>"

definition ok_result :: cmd_result where
  "ok_result = \<lparr>success = True, fault_of = None\<rparr>"

definition ok_env :: act_env where
  "ok_env = \<lparr>send_command = Inr ok_result, notify_action = None\<rparr>"

definition no_advice :: "error + advice" where
  "no_advice = Inr \<lparr>suggest_change = False, suggested_command = None, advice_reason = None\<rparr>"

definition telemetry_battery :: "pyval \<Rightarrow> telemetry" where
  "telemetry_battery b = empty_telemetry\<lparr>battery := Some b,
      position := Some \<lparr>x = Some 10, y = Some 0, z = Some 10\<rparr>\<rparr>"

definition perception_battery :: "pyval \<Rightarrow> perception" where
  "perception_battery b = \<lparr>p_telemetry = Some (telemetry_battery b), p_obstacles = None\<rparr>"

definition near_unmeasured :: obstacle where
  "near_unmeasured = \<lparr>x = Some 1, y = Some 0, z = Some 0, distance = None\<rparr>"

definition far_measured :: obstacle where
  "far_measured = \<lparr>x = Some 7, y = Some 0, z = Some 0, distance = Some 7\<rparr>"

definition high_obstacle :: obstacle where
  "high_obstacle = \<lparr>x = Some 3, y = Some 0, z = Some 4, distance = Some 5\<rparr>"

text \<open>A link that fails at the second waypoint (number 1) and works otherwise.\<close>

definition failing_env :: mission_env where
  "failing_env = \<lparr>notify_mission_start = None,
     goto_result = (\<lambda>i. if i = 1 then Inl (RuntimeError ''link lost'') else Inr ok_result),
     concurrent_state = (\<lambda>i. None), complete_fault = None, failure_act = ok_env\<rparr>"

section \<open>Notions used by the claims\<close>

text \<open>The Euclidean length of a direction vector.\<close>

definition norm3 :: "vec3 \<Rightarrow> real" where
  "norm3 v = sqrt ((vx v)\<^sup>2 + (vy v)\<^sup>2 + (vz v)\<^sup>2)"

text \<open>
  The distance of an obstacle as claim C7 words it, not as the code computes it: the
  given distance, or, when absent, the Euclidean norm of the obstacle's coordinates
  (which are relative to the agent).
\<close>

definition claimed_distance :: "obstacle \<Rightarrow> real" where
  "claimed_distance ob =
     (case distance ob of
        Some d \<Rightarrow> d
      | None \<Rightarrow> sqrt ((dict_get (x ob) 0)\<^sup>2 + (dict_get (y ob) 0)\<^sup>2 + (dict_get (z ob) 0)\<^sup>2))"

section \<open>Properties\<close>

subsection \<open>The state update of act\<close>

text \<open>
  Claim C1 says that a (state, command) pair outside the transition table leaves the
  state unchanged, for instance (EMERGENCY, TAKEOFF). The update in \<open>act\<close> never
  looks at the current state. What holds: when the dispatch raises, the state is
  unchanged; otherwise TAKEOFF, GOTO and FOLLOW\_PATH give FLYING and LAND and RTL give
  LANDING from every state, and every other command leaves the state unchanged.
\<close>

theorem act_state_transition:
  "state (snd (act env a d)) =
     (if connected a \<and> isl (send_command env) then state a
      else if command d \<in> {''TAKEOFF'', ''GOTO'', ''FOLLOW_PATH''} then FLYING
      else if command d \<in> {''LAND'', ''RTL''} then LANDING
      else state a)"
  by (auto simp: act_def update_state_def Let_def split: sum.splits option.splits)

text \<open>A HOVER acted on in state EMERGENCY leaves the state EMERGENCY.\<close>

theorem act_state_transition_witness:
  "state (snd (act ok_env (agent0\<lparr>state := EMERGENCY\<rparr>) fallback_decision)) = EMERGENCY"
  using act_state_transition [of ok_env "agent0\<lparr>state := EMERGENCY\<rparr>" fallback_decision]
  by (simp add: ok_env_def agent0_def fallback_decision_def)

text \<open>A TAKEOFF acted on in state EMERGENCY puts the agent in state FLYING.\<close>

theorem act_emergency_takeoff_counterexample:
  "state (snd (act ok_env (agent0\<lparr>state := EMERGENCY\<rparr>)
                 (fallback_decision\<lparr>command := ''TAKEOFF''\<rparr>))) = FLYING"
  by (simp add: act_def update_state_def Let_def ok_env_def agent0_def fallback_decision_def)

subsection \<open>Low battery in decide\<close>

lemma decide_after_slom_battery5:
  assumes "p_telemetry p = Some t" and "battery t = Some (Num 5)"
  shows "decide_after_slom review a p =
     Inr \<lparr>command = ''RTL'', params = NoParams, reason = LowBattery, priority = ''high''\<rparr>"
  using assms
  by (simp add: decide_after_slom_def core_check_emergency_def handle_emergency_def dict_get_def)

text \<open>
  Claim C2 says that with battery = 5 in the telemetry \<open>decide\<close> returns RTL with
  priority critical. The emergency checks in front of the decision maker answer first,
  and both give priority high. What holds: with battery = 5, whether or not a mission is
  active, \<open>decide\<close> returns RTL with priority high, provided the safety tool, when
  loaded, does not raise on the perception.
\<close>

theorem decide_battery5_rtl_high:
  assumes "p_telemetry p = Some t" and "battery t = Some (Num 5)"
      and "\<forall>tool e. slom a = Some tool \<longrightarrow> check_emergency tool p \<noteq> Inl e"
  shows "command (decide review a p) = ''RTL'' \<and> priority (decide review a p) = ''high''"
proof (cases "slom a")
  case None
  then show ?thesis
    using decide_after_slom_battery5 [OF assms(1,2)]
    by (simp add: decide_def decide_body_def)
next
  case (Some tool)
  with assms(3) have ne: "\<forall>e. check_emergency tool p \<noteq> Inl e" by simp
  show ?thesis
  proof (cases "check_emergency tool p")
    case (Inl e)
    with ne show ?thesis by simp
  next
    case (Inr r)
    then show ?thesis
      using Some decide_after_slom_battery5 [OF assms(1,2)]
      by (cases r) (simp_all add: decide_def decide_body_def)
  qed
qed

text \<open>The safety tool with its default thresholds, a mission of three waypoints.\<close>

theorem decide_battery5_rtl_high_witness:
  "command (decide no_advice (agent0\<lparr>slom := Some default_slom, current_mission := Some mission3\<rparr>)
       (perception_battery (Num 5))) = ''RTL''
   \<and> priority (decide no_advice (agent0\<lparr>slom := Some default_slom, current_mission := Some mission3\<rparr>)
       (perception_battery (Num 5))) = ''high''"
proof -
  have t: "p_telemetry (perception_battery (Num 5)) = Some (telemetry_battery (Num 5))"
    by (simp add: perception_battery_def)
  have b: "battery (telemetry_battery (Num 5)) = Some (Num 5)"
    by (simp add: telemetry_battery_def)
  have s: "\<forall>tool e. slom (agent0\<lparr>slom := Some default_slom, current_mission := Some mission3\<rparr>) = Some tool
            \<longrightarrow> check_emergency tool (perception_battery (Num 5)) \<noteq> Inl e"
    by (simp add: check_emergency_def default_slom_def default_thresholds_def
        perception_battery_def telemetry_battery_def dict_get_def)
  show ?thesis using decide_battery5_rtl_high [OF t b s] .
qed

text \<open>Without the safety tool, in a mission of three waypoints: RTL, priority high.\<close>

theorem decide_battery5_counterexample:
  "decide no_advice (agent0\<lparr>current_mission := Some mission3\<rparr>) (perception_battery (Num 5)) =
     \<lparr>command = ''RTL'', params = NoParams, reason = LowBattery, priority = ''high''\<rparr>
   \<and> priority (decide no_advice (agent0\<lparr>current_mission := Some mission3\<rparr>)
        (perception_battery (Num 5))) \<noteq> ''critical''"
  by (simp add: decide_def decide_body_def decide_after_slom_def core_check_emergency_def
      handle_emergency_def agent0_def perception_battery_def telemetry_battery_def
      empty_telemetry_def dict_get_def)

subsection \<open>Safety rules\<close>

text \<open>
  Claim C3: for every telemetry with battery below 10, the safety rules of the decision
  maker, sorted by descending priority and stopped at the first match, return LAND with
  priority critical, whatever the other fields hold (numbers or not).
\<close>

theorem critical_battery_dominates:
  assumes "battery t = Some (Num b)" and "b < 10"
  shows "check_safety_rules init_safety_rules t =
     Some \<lparr>command = ''LAND'', params = NoParams, reason = CriticalBattery,
           priority = ''critical''\<rparr>"
  using assms
  by (simp add: check_safety_rules_def sorted_rules_def init_safety_rules_def dict_get_def)

theorem critical_battery_dominates_witness:
  "check_safety_rules init_safety_rules
     (empty_telemetry\<lparr>battery := Some (Num 5), signal_strength := Some (Str ''lost''),
        wind_speed := Some (Num 40)\<rparr>) =
     Some \<lparr>command = ''LAND'', params = NoParams, reason = CriticalBattery,
           priority = ''critical''\<rparr>"
proof -
  have b: "battery (empty_telemetry\<lparr>battery := Some (Num 5),
        signal_strength := Some (Str ''lost''), wind_speed := Some (Num 40)\<rparr>) = Some (Num 5)"
    by simp
  have l: "(5::real) < 10" by simp
  show ?thesis using critical_battery_dominates [OF b l] .
qed

subsection \<open>The exception handler of decide\<close>

text \<open>
  Claim C4: whenever the body of \<open>decide\<close> raises, \<open>decide\<close> itself returns the
  fallback decision, HOVER with priority medium. (\<open>decide\<close> returns a decision on every
  input: that is its type.)
\<close>

theorem decide_never_raises:
  assumes "decide_body review a p = Inl e"
  shows "decide review a p = fallback_decision
       \<and> command (decide review a p) = ''HOVER'' \<and> priority (decide review a p) = ''medium''"
  using assms by (simp add: decide_def fallback_decision_def)

text \<open>A battery reading of \<open>None\<close> makes the emergency check raise TypeError.\<close>

theorem decide_never_raises_witness:
  "decide_body no_advice agent0 (perception_battery PyNone) = Inl TypeError
   \<and> command (decide no_advice agent0 (perception_battery PyNone)) = ''HOVER''
   \<and> priority (decide no_advice agent0 (perception_battery PyNone)) = ''medium''"
proof -
  have r: "decide_body no_advice agent0 (perception_battery PyNone) = Inl TypeError"
    by (simp add: decide_body_def decide_after_slom_def core_check_emergency_def agent0_def
        perception_battery_def telemetry_battery_def dict_get_def)
  show ?thesis using decide_never_raises [OF r] r by blast
qed

subsection \<open>Avoidance direction\<close>

lemma avoidance_direction_total: "\<exists>v. calculate_avoidance_direction ob = Inr v"
  by (simp add: calculate_avoidance_direction_def Let_def py_div_def)

text \<open>
  Claim C8: for an obstacle whose position vector has norm 0, the avoidance direction
  is (1, 0, 0); no division is attempted, so none fails.
\<close>

theorem avoidance_direction_zero_vector:
  assumes "sqrt ((dict_get (x ob) 0)\<^sup>2 + (dict_get (y ob) 0)\<^sup>2 + (dict_get (z ob) 0)\<^sup>2) = 0"
  shows "calculate_avoidance_direction ob = Inr \<lparr>vx = 1, vy = 0, vz = 0\<rparr>"
  using assms by (simp add: calculate_avoidance_direction_def Let_def)

theorem avoidance_direction_zero_vector_witness:
  "calculate_avoidance_direction \<lparr>x = Some 0, y = None, z = Some 0, distance = Some 5\<rparr>
     = Inr \<lparr>vx = 1, vy = 0, vz = 0\<rparr>"
proof -
  have n: "sqrt ((dict_get (x \<lparr>x = Some 0, y = None, z = Some 0, distance = Some (5::real)\<rparr>) 0)\<^sup>2
    + (dict_get (y \<lparr>x = Some 0, y = None, z = Some 0, distance = Some (5::real)\<rparr>) 0)\<^sup>2
    + (dict_get (z \<lparr>x = Some 0, y = None, z = Some 0, distance = Some (5::real)\<rparr>) 0)\<^sup>2) = 0"
    by (simp add: dict_get_def)
  show ?thesis using avoidance_direction_zero_vector [OF n] .
qed

subsection \<open>Geofence\<close>

text \<open>
  Claim C9: for a geofence whose centre has "x" and "y", a position whose planar
  distance from the centre exceeds the radius gives an RTL emergency, and a position
  within the radius whose altitude exceeds the maximum gives a DESCEND emergency whose
  "altitude" parameter is the maximum altitude minus 10. (\<open>check_emergency\<close> calls
  this check only when the geofence is enabled.)
\<close>

theorem check_geofence_breach:
  assumes "x (center g) = Some cx" and "y (center g) = Some cy"
  shows "(sqrt ((dict_get (x pos) 0 - cx)\<^sup>2 + (dict_get (y pos) 0 - cy)\<^sup>2) > radius g \<longrightarrow>
            check_geofence g pos =
              Inr (Some \<lparr>e_type = ''geofence_breach'', severity = ''warning'',
                         e_action = ''RTL'', e_params = []\<rparr>))
       \<and> (sqrt ((dict_get (x pos) 0 - cx)\<^sup>2 + (dict_get (y pos) 0 - cy)\<^sup>2) \<le> radius g
            \<and> dict_get (z pos) 0 > max_altitude g \<longrightarrow>
            check_geofence g pos =
              Inr (Some \<lparr>e_type = ''geofence_breach'', severity = ''warning'',
                         e_action = ''DESCEND'',
                         e_params = [(''altitude'', max_altitude g - 10)]\<rparr>))"
  using assms by (simp add: check_geofence_def py_index_def Let_def)

text \<open>
  The default geofence (radius 500, maximum altitude 120): 600 m east of the centre,
  and 5 m from the centre at altitude 150.
\<close>

theorem check_geofence_breach_witness:
  "check_geofence default_geofence \<lparr>x = Some 600, y = Some 0, z = Some 10\<rparr> =
      Inr (Some \<lparr>e_type = ''geofence_breach'', severity = ''warning'',
                 e_action = ''RTL'', e_params = []\<rparr>)
   \<and> check_geofence default_geofence \<lparr>x = Some 3, y = Some 4, z = Some 150\<rparr> =
      Inr (Some \<lparr>e_type = ''geofence_breach'', severity = ''warning'',
                 e_action = ''DESCEND'', e_params = [(''altitude'', 110)]\<rparr>)"
proof -
  have c: "x (center default_geofence) = Some 0" "y (center default_geofence) = Some 0"
    by (simp_all add: default_geofence_def)
  have s1: "sqrt (600\<^sup>2) = (600::real)" by simp
  have s2: "sqrt (3\<^sup>2 + 4\<^sup>2) = (5::real)" by (rule real_sqrt_unique) simp_all
  show ?thesis
    using check_geofence_breach [OF c, of "\<lparr>x = Some 600, y = Some 0, z = Some 10\<rparr>"]
          check_geofence_breach [OF c, of "\<lparr>x = Some 3, y = Some 4, z = Some 150\<rparr>"] s1 s2
    by (simp add: default_geofence_def dict_get_def)
qed

text \<open>Inside \<open>check_emergency\<close> the geofence is consulted only when it is enabled.\<close>

lemma geofence_check_enabled:
  assumes "enabled g"
      and "check_geofence g (dict_get (position t) origin) = Inr (Some em)"
  shows "geofence_check g th t = Inr (Some em)"
  using assms by (simp add: geofence_check_def)

lemma geofence_check_disabled:
  assumes "\<not> enabled g"
  shows "geofence_check g th t = temperature_check th t"
  using assms by (simp add: geofence_check_def)

subsection \<open>Mission navigation\<close>

lemma find_next_waypoint_far:
  "find_next_waypoint pos wps = Some w \<Longrightarrow> calculate_distance pos w > 2"
  by (induction wps) (auto split: if_splits)

text \<open>
  Claim C10: mission navigation returns HOVER, RTL or GOTO and never WAYPOINT\_REACHED:
  the waypoint found by the search is farther than 2 m, and the distance is computed
  again by the same function.
\<close>

theorem navigate_never_waypoint_reached:
  "command (navigate_mission p m) \<in> {''HOVER'', ''RTL'', ''GOTO''}
   \<and> command (navigate_mission p m) \<noteq> ''WAYPOINT_REACHED''"
  by (auto simp: navigate_mission_def Let_def dest!: find_next_waypoint_far split: option.splits)

subsection \<open>Choice of the closest obstacle\<close>

lemma float_lt_trans_neg:
  "\<not> float_lt a b \<Longrightarrow> \<not> float_lt b c \<Longrightarrow> \<not> float_lt a c"
  by (cases a; cases b; cases c) auto

lemma py_min_loop_le_best: "\<not> float_lt (key best) (key (py_min_loop key best cs))"
proof (induction cs arbitrary: best)
  case Nil
  show ?case by (cases "key best") auto
next
  case (Cons c cs)
  show ?case
  proof (cases "float_lt (key c) (key best)")
    case True
    have "\<not> float_lt (key c) (key (py_min_loop key c cs))" by (rule Cons.IH)
    moreover have "\<not> float_lt (key best) (key c)"
      using True by (cases "key c"; cases "key best") auto
    ultimately show ?thesis using True float_lt_trans_neg by auto
  next
    case False
    then show ?thesis using Cons.IH [of best] by simp
  qed
qed

lemma py_min_loop_le_all:
  "c \<in> set cs \<Longrightarrow> \<not> float_lt (key c) (key (py_min_loop key best cs))"
proof (induction cs arbitrary: best)
  case Nil
  then show ?case by simp
next
  case (Cons d ds)
  let ?b = "if float_lt (key d) (key best) then d else best"
  show ?case
  proof (cases "c = d")
    case True
    have "\<not> float_lt (key ?b) (key (py_min_loop key ?b ds))" by (rule py_min_loop_le_best)
    moreover have "\<not> float_lt (key d) (key ?b)"
      by (cases "key d"; cases "key best") auto
    ultimately have "\<not> float_lt (key d) (key (py_min_loop key ?b ds))"
      using float_lt_trans_neg by blast
    then show ?thesis using True by simp
  next
    case False
    with Cons.prems have "c \<in> set ds" by simp
    then show ?thesis using Cons.IH [of ?b] by simp
  qed
qed

lemma py_min_loop_mem: "py_min_loop key best cs \<in> set (best # cs)"
  by (induction cs arbitrary: best) (auto split: if_splits)

lemma float_lt_trans: "float_lt a b \<Longrightarrow> float_lt b c \<Longrightarrow> float_lt a c"
  by (cases a; cases b; cases c) auto

lemma float_lt_not_lt: "float_lt r b \<Longrightarrow> \<not> float_lt c b \<Longrightarrow> float_lt r c"
  by (cases r; cases b; cases c) auto

lemma split_at_head:
  "b # cs = pre @ r # post \<Longrightarrow>
     (pre = [] \<and> r = b \<and> cs = post) \<or> (\<exists>ps. pre = b # ps \<and> cs = ps @ r # post)"
  by (cases pre) auto

lemma py_min_loop_first:
  "\<exists>pre post. best # cs = pre @ py_min_loop key best cs # post
       \<and> (\<forall>c \<in> set pre. float_lt (key (py_min_loop key best cs)) (key c))"
proof (induction cs arbitrary: best)
  case Nil
  show ?case by (rule exI [of _ "[]"]) simp
next
  case (Cons c cs)
  show ?case
  proof (cases "float_lt (key c) (key best)")
    case True
    define r where "r = py_min_loop key c cs"
    from Cons.IH [of c] obtain pre post where
      e: "c # cs = pre @ r # post" and f: "\<forall>d \<in> set pre. float_lt (key r) (key d)"
      unfolding r_def by blast
    have "float_lt (key r) (key best)"
      using split_at_head [OF e] f True float_lt_trans by fastforce
    with e f have "best # c # cs = (best # pre) @ r # post
       \<and> (\<forall>d \<in> set (best # pre). float_lt (key r) (key d))" by simp
    moreover have "py_min_loop key best (c # cs) = r" using True by (simp add: r_def)
    ultimately show ?thesis by metis
  next
    case False
    define r where "r = py_min_loop key best cs"
    from Cons.IH [of best] obtain pre post where
      e: "best # cs = pre @ r # post" and f: "\<forall>d \<in> set pre. float_lt (key r) (key d)"
      unfolding r_def by blast
    have res: "py_min_loop key best (c # cs) = r" using False by (simp add: r_def)
    from split_at_head [OF e] show ?thesis
    proof
      assume "pre = [] \<and> r = best \<and> cs = post"
      then have "best # c # cs = [] @ r # c # cs \<and> (\<forall>d \<in> set []. float_lt (key r) (key d))"
        by simp
      with res show ?thesis by metis
    next
      assume "\<exists>ps. pre = best # ps \<and> cs = ps @ r # post"
      then obtain ps where p: "pre = best # ps" and cs: "cs = ps @ r # post" by blast
      from f p have lb: "float_lt (key r) (key best)" by simp
      with False have lc: "float_lt (key r) (key c)" using float_lt_not_lt by blast
      have "best # c # cs = (best # c # ps) @ r # post" using cs by simp
      moreover have "\<forall>d \<in> set (best # c # ps). float_lt (key r) (key d)"
        using f p lb lc by simp
      ultimately show ?thesis using res by metis
    qed
  qed
qed

text \<open>
  Claim C7 says that the handler selects the obstacle of minimum distance, the distance
  being the given one or else the Euclidean norm of the coordinates. The code never
  computes a norm here: an obstacle without "distance" counts as infinitely far. What
  holds: the selected obstacle is in the list, no obstacle of the list has a smaller key
  (given distance, or infinity), and every obstacle in front of the selected one has a
  strictly larger key, so the first of the minimal ones is taken.
\<close>

theorem closest_obstacle_min_given_distance:
  "closest_obstacle ob obs \<in> set (ob # obs)
   \<and> (\<forall>c \<in> set (ob # obs).
         \<not> float_lt (distance_key c) (distance_key (closest_obstacle ob obs)))
   \<and> (\<exists>pre post. ob # obs = pre @ closest_obstacle ob obs # post
         \<and> (\<forall>c \<in> set pre. float_lt (distance_key (closest_obstacle ob obs)) (distance_key c)))"
  using py_min_loop_mem [of distance_key ob obs] py_min_loop_le_best [of distance_key ob obs]
        py_min_loop_le_all [of _ obs distance_key ob] py_min_loop_first [of ob obs distance_key]
  by (auto simp: closest_obstacle_def)

theorem closest_obstacle_min_given_distance_witness:
  "closest_obstacle near_unmeasured [far_measured] \<in> {near_unmeasured, far_measured}
   \<and> \<not> float_lt (distance_key near_unmeasured)
          (distance_key (closest_obstacle near_unmeasured [far_measured]))
   \<and> \<not> float_lt (distance_key far_measured)
          (distance_key (closest_obstacle near_unmeasured [far_measured]))"
  using closest_obstacle_min_given_distance [of near_unmeasured "[far_measured]"]
  by simp

text \<open>
  An obstacle 1 m away without a given distance, and one with the given distance 7: the
  second is selected; alone, the first one gives no decision at all.
\<close>

theorem closest_obstacle_counterexample:
  "closest_obstacle near_unmeasured [far_measured] = far_measured
   \<and> claimed_distance near_unmeasured < claimed_distance far_measured
   \<and> handle_obstacles [near_unmeasured] = Inr None \<and> claimed_distance near_unmeasured < 3"
  by (simp add: closest_obstacle_def distance_key_def near_unmeasured_def far_measured_def
      claimed_distance_def dict_get_def)

subsection \<open>The AVOID decision\<close>

text \<open>
  Claim C6 says that for a closest obstacle at a distance in [3, 10) with a non-zero
  position the handler returns AVOID, priority high, distance 15, with the negated
  normalised position as direction, of unit length, z included. The code sets the z
  component of the direction to 0 (it keeps the altitude) while dividing by the norm of
  all three coordinates. What holds: the direction is (-x/n, -y/n, 0) with n the norm of
  (x, y, z), and it has unit length when the obstacle's z is 0.
\<close>

theorem handle_obstacles_avoid:
  assumes "closest_obstacle ob obs = c" and "distance c = Some d" and "3 \<le> d" and "d < 10"
      and "n = sqrt ((dict_get (x c) 0)\<^sup>2 + (dict_get (y c) 0)\<^sup>2 + (dict_get (z c) 0)\<^sup>2)"
      and "n \<noteq> 0"
  shows "handle_obstacles (ob # obs) =
           Inr (Some \<lparr>command = ''AVOID'',
                      params = AvoidParams \<lparr>vx = - dict_get (x c) 0 / n, vy = - dict_get (y c) 0 / n, vz = 0\<rparr> 15,
                      reason = ObstacleAt d, priority = ''high''\<rparr>)
       \<and> (dict_get (z c) 0 = 0 \<longrightarrow>
            norm3 \<lparr>vx = - dict_get (x c) 0 / n, vy = - dict_get (y c) 0 / n, vz = 0\<rparr> = 1)"
proof -
  have npos: "n > 0"
    using assms(5,6) by (metis less_eq_real_def real_sqrt_ge_zero sum_power2_ge_zero add_nonneg_nonneg zero_le_power2)
  have dir: "calculate_avoidance_direction c =
      Inr \<lparr>vx = - dict_get (x c) 0 / n, vy = - dict_get (y c) 0 / n, vz = 0\<rparr>"
    using npos assms(5) by (simp add: calculate_avoidance_direction_def Let_def py_div_def)
  have h: "handle_obstacles (ob # obs) =
           Inr (Some \<lparr>command = ''AVOID'',
                      params = AvoidParams \<lparr>vx = - dict_get (x c) 0 / n, vy = - dict_get (y c) 0 / n, vz = 0\<rparr> 15,
                      reason = ObstacleAt d, priority = ''high''\<rparr>)"
    using assms(1-4) dir by (simp add: Let_def dict_get_def)
  have u: "norm3 \<lparr>vx = - dict_get (x c) 0 / n, vy = - dict_get (y c) 0 / n, vz = 0\<rparr> = 1"
    if z0: "dict_get (z c) 0 = 0"
  proof -
    have n2: "n\<^sup>2 = (dict_get (x c) 0)\<^sup>2 + (dict_get (y c) 0)\<^sup>2"
      using assms(5) z0 by simp
    have "(- dict_get (x c) 0 / n)\<^sup>2 + (- dict_get (y c) 0 / n)\<^sup>2 = ((dict_get (x c) 0)\<^sup>2 + (dict_get (y c) 0)\<^sup>2) / n\<^sup>2"
      by (simp add: power_divide add_divide_distrib)
    also have "\<dots> = 1" unfolding n2 [symmetric] using assms(6) by simp
    finally show ?thesis by (simp add: norm3_def)
  qed
  show ?thesis using h u by blast
qed

theorem handle_obstacles_avoid_witness:
  "handle_obstacles [far_measured] =
     Inr (Some \<lparr>command = ''AVOID'', params = AvoidParams \<lparr>vx = - 1, vy = 0, vz = 0\<rparr> 15,
                reason = ObstacleAt 7, priority = ''high''\<rparr>)
   \<and> norm3 \<lparr>vx = - 1, vy = 0, vz = 0\<rparr> = 1"
proof -
  have c: "closest_obstacle far_measured [] = far_measured" by (simp add: closest_obstacle_def)
  have d: "distance far_measured = Some 7" by (simp add: far_measured_def)
  have n: "(7::real) = sqrt ((dict_get (x far_measured) 0)\<^sup>2 + (dict_get (y far_measured) 0)\<^sup>2
             + (dict_get (z far_measured) 0)\<^sup>2)"
    by (simp add: far_measured_def dict_get_def)
  show ?thesis
    using handle_obstacles_avoid [OF c d _ _ n]
    by (simp add: far_measured_def dict_get_def)
qed

text \<open>
  An obstacle at (3, 0, 4) with the given distance 5: the direction is (-3/5, 0, 0), of
  length 3/5, and not (-3/5, 0, -4/5).
\<close>

theorem handle_obstacles_direction_counterexample:
  "handle_obstacles [high_obstacle] =
     Inr (Some \<lparr>command = ''AVOID'', params = AvoidParams \<lparr>vx = - 3 / 5, vy = 0, vz = 0\<rparr> 15,
                reason = ObstacleAt 5, priority = ''high''\<rparr>)
   \<and> norm3 \<lparr>vx = - 3 / 5, vy = 0, vz = 0\<rparr> \<noteq> 1
   \<and> \<lparr>vx = - 3 / 5, vy = 0, vz = 0\<rparr> \<noteq> \<lparr>vx = - 3 / 5, vy = 0, vz = - 4 / (5::real)\<rparr>"
proof -
  have s: "sqrt (3\<^sup>2 + 4\<^sup>2) = (5::real)" by (rule real_sqrt_unique) simp_all
  have s2: "sqrt ((3/5)\<^sup>2) = (3/5::real)" by (rule real_sqrt_unique) simp_all
  show ?thesis
    using s s2
    by (simp add: closest_obstacle_def high_obstacle_def dict_get_def Let_def
        calculate_avoidance_direction_def py_div_def norm3_def)
qed

subsection \<open>Failure of a mission\<close>

lemma mission_loop_frame:
  "mission_loop env m i wps a md = (r, a') \<Longrightarrow>
     connected a' = connected a \<and> mission_history a' = mission_history a"
proof (induction wps arbitrary: i a md)
  case Nil
  then show ?case by simp
next
  case (Cons wp wps)
  show ?case
  proof (cases "state a = EMERGENCY")
    case True
    with Cons.prems show ?thesis by simp
  next
    case False
    show ?thesis
    proof (cases "goto_waypoint (goto_result env i) a wp")
      case (Pair out a1)
      then have fr: "connected a1 = connected a \<and> mission_history a1 = mission_history a"
        by (auto simp: goto_waypoint_def Let_def split: if_splits)
      show ?thesis
      proof (cases out)
        case (Inl e)
        with Pair False Cons.prems fr show ?thesis by simp
      next
        case (Inr res)
        with Pair False Cons.prems
        have "mission_loop env m (Suc i) wps
               (case concurrent_state env i of None \<Rightarrow> a1 | Some s \<Rightarrow> a1\<lparr>state := s\<rparr>)
               (if success res then record_waypoint m wp md else md) = (r, a')" by simp
        from Cons.IH [OF this] fr show ?thesis by (simp split: option.splits)
      qed
    qed
  qed
qed

lemma mission_loop_raises_connected:
  "mission_loop env m i wps a md = (Inl e, a') \<Longrightarrow> connected a"
proof (induction wps arbitrary: i a md)
  case Nil
  then show ?case by simp
next
  case (Cons wp wps)
  show ?case
  proof (cases "state a = EMERGENCY")
    case True
    with Cons.prems show ?thesis by simp
  next
    case False
    show ?thesis
    proof (cases "goto_waypoint (goto_result env i) a wp")
      case (Pair out a1)
      then have fr: "connected a1 = connected a"
        by (auto simp: goto_waypoint_def Let_def split: if_splits)
      show ?thesis
      proof (cases out)
        case (Inl e')
        with Pair show ?thesis by (auto simp: goto_waypoint_def Let_def split: if_splits)
      next
        case (Inr res)
        with Pair False Cons.prems
        have "mission_loop env m (Suc i) wps
               (case concurrent_state env i of None \<Rightarrow> a1 | Some s \<Rightarrow> a1\<lparr>state := s\<rparr>)
               (if success res then record_waypoint m wp md else md) = (Inl e, a')" by simp
        from Cons.IH [OF this] fr show ?thesis by (simp split: option.splits)
      qed
    qed
  qed
qed

lemma handle_mission_failure_effect:
  "state (handle_mission_failure env a e) = READY
   \<and> current_mission (handle_mission_failure env a e) = None
   \<and> mission_history (handle_mission_failure env a e) = mission_history a
   \<and> (connected a \<longrightarrow> sent (handle_mission_failure env a e) = sent a @ [(''LAND'', NoParams)])"
  by (auto simp: handle_mission_failure_def act_def update_state_def Let_def
      split: sum.splits option.splits)

text \<open>
  Claim C5 says that on an exception in the waypoint loop the failure handler dispatches
  LAND, resets the state to READY, marks the mission failed in a report visible to the
  caller, and lets no exception out. The code writes no record of a failed mission
  anywhere. What holds: when the loop raises, no exception leaves \<open>run_mission\<close>,
  LAND is the next command handed to the client, the state is READY, the current mission
  is cleared, and the mission history is as it was before the mission.
\<close>

theorem run_mission_loop_failure:
  assumes "notify_mission_start env = None"
      and "mission_loop env m 0 (waypoints m) (a\<lparr>current_mission := Some m, state := FLYING\<rparr>)
             empty_mission_data = (Inl e, a2)"
  shows "fst (run_mission env a m) = None
       \<and> sent (snd (run_mission env a m)) = sent a2 @ [(''LAND'', NoParams)]
       \<and> state (snd (run_mission env a m)) = READY
       \<and> current_mission (snd (run_mission env a m)) = None
       \<and> mission_history (snd (run_mission env a m)) = mission_history a"
proof -
  have r: "run_mission env a m = (None, handle_mission_failure (failure_act env) a2 e)"
    using assms by (simp add: run_mission_def Let_def)
  have "connected (a\<lparr>current_mission := Some m, state := FLYING\<rparr>)"
    using mission_loop_raises_connected [OF assms(2)] .
  moreover have "connected a2 = connected (a\<lparr>current_mission := Some m, state := FLYING\<rparr>)
     \<and> mission_history a2 = mission_history (a\<lparr>current_mission := Some m, state := FLYING\<rparr>)"
    using mission_loop_frame [OF assms(2)] .
  ultimately have c: "connected a2" and h: "mission_history a2 = mission_history a" by simp_all
  show ?thesis
    using r c h handle_mission_failure_effect [of "failure_act env" a2 e] by simp
qed

lemma failing_loop:
  "mission_loop failing_env mission3 0 (waypoints mission3)
     (agent0\<lparr>current_mission := Some mission3, state := FLYING\<rparr>) empty_mission_data
   = (Inl (RuntimeError ''link lost''),
      agent0\<lparr>current_mission := Some mission3, state := FLYING,
        sent := [(''GOTO'', GotoParams 10 0 10 5), (''GOTO'', GotoParams 20 0 10 5)]\<rparr>)"
  by (simp add: failing_env_def mission3_def agent0_def goto_waypoint_def Let_def dict_get_def
      ok_result_def record_waypoint_def empty_mission_data_def)

theorem run_mission_loop_failure_witness:
  "fst (run_mission failing_env agent0 mission3) = None
   \<and> sent (snd (run_mission failing_env agent0 mission3)) =
       [(''GOTO'', GotoParams 10 0 10 5), (''GOTO'', GotoParams 20 0 10 5), (''LAND'', NoParams)]
   \<and> state (snd (run_mission failing_env agent0 mission3)) = READY
   \<and> current_mission (snd (run_mission failing_env agent0 mission3)) = None
   \<and> mission_history (snd (run_mission failing_env agent0 mission3)) = []"
proof -
  have n: "notify_mission_start failing_env = None" by (simp add: failing_env_def)
  show ?thesis
    using run_mission_loop_failure [OF n failing_loop] by (simp add: agent0_def)
qed

text \<open>
  After the failed mission the agent differs from the agent before it only in the
  commands sent: the history of reports is still empty.
\<close>

theorem run_mission_no_failure_record_counterexample:
  "run_mission failing_env agent0 mission3 =
     (None, agent0\<lparr>sent := [(''GOTO'', GotoParams 10 0 10 5), (''GOTO'', GotoParams 20 0 10 5),
                            (''LAND'', NoParams)]\<rparr>)
   \<and> mission_history agent0 = []"
proof -
  have n: "notify_mission_start failing_env = None" and f: "failure_act failing_env = ok_env"
    by (simp_all add: failing_env_def)
  have "run_mission failing_env agent0 mission3 =
     (None, handle_mission_failure ok_env
        (agent0\<lparr>current_mission := Some mission3, state := FLYING,
           sent := [(''GOTO'', GotoParams 10 0 10 5), (''GOTO'', GotoParams 20 0 10 5)]\<rparr>)
        (RuntimeError ''link lost''))"
    by (simp add: run_mission_def Let_def n f failing_loop)
  then show ?thesis
    by (simp add: handle_mission_failure_def act_def update_state_def agent0_def ok_env_def)
qed

end
